theory Spec2Isabelle
  imports Complex_Main "HOL-Library.Word" "HOL-Library.Multiset"
begin

section \<open>JavaScript strings\<close>

text \<open>
  A JavaScript string is a sequence of UTF-16 code units; \<open>length\<close>, \<open>slice\<close> and the
  regular expressions of the sources count code units. The markers the sources append
  (the ellipsis U+2026, the triangles of the tool summaries) are single code units.
\<close>

type_synonym jschar = "16 word"
type_synonym jstring = "jschar list"

definition js :: "string \<Rightarrow> jstring" where
  "js s = map (\<lambda>c. of_nat (of_char c)) s"

text \<open>
  The class \<open>\s\<close> of a regular expression and the characters removed by
  \<open>String.prototype.trim\<close> (WhiteSpace and LineTerminator) are the same set.
\<close>

definition is_space :: "jschar \<Rightarrow> bool" where
  "is_space c \<longleftrightarrow>
     c = 0x09 \<or> c = 0x0A \<or> c = 0x0B \<or> c = 0x0C \<or> c = 0x0D \<or> c = 0x20 \<or> c = 0xA0 \<or>
     c = 0x1680 \<or> (0x2000 \<le> c \<and> c \<le> 0x200A) \<or> c = 0x2028 \<or> c = 0x2029 \<or>
     c = 0x202F \<or> c = 0x205F \<or> c = 0x3000 \<or> c = 0xFEFF"

text \<open>\<open>s.trim()\<close>\<close>

definition trim :: "jstring \<Rightarrow> jstring" where
  "trim s = rev (dropWhile is_space (rev (dropWhile is_space s)))"

text \<open>
  \<open>s.replace(/\s+/g, ' ')\<close>: every maximal run of whitespace becomes one space. The flag
  says whether the scan is inside a run whose space has already been written.
\<close>

primrec collapse_from :: "bool \<Rightarrow> jstring \<Rightarrow> jstring" where
  "collapse_from in_run [] = []"
| "collapse_from in_run (c # cs) =
     (if is_space c
      then (if in_run then collapse_from True cs else 0x20 # collapse_from True cs)
      else c # collapse_from False cs)"

definition collapse_ws :: "jstring \<Rightarrow> jstring" where
  "collapse_ws s = collapse_from False s"

text \<open>\<open>s.includes(t)\<close> and \<open>s.startsWith(t)\<close>\<close>

primrec starts_with :: "jstring \<Rightarrow> jstring \<Rightarrow> bool" where
  "starts_with s [] = True"
| "starts_with s (p # ps) = (case s of [] \<Rightarrow> False | c # cs \<Rightarrow> c = p \<and> starts_with cs ps)"

primrec includes_str :: "jstring \<Rightarrow> jstring \<Rightarrow> bool" where
  "includes_str [] t = (t = [])"
| "includes_str (c # cs) t = (starts_with (c # cs) t \<or> includes_str cs t)"

text \<open>Decimal rendering of an integer, as \<open>String(n)\<close> and template literals do.\<close>

fun show_nat :: "nat \<Rightarrow> jstring" where
  "show_nat n = (if n < 10 then [of_nat (48 + n)] else show_nat (n div 10) @ [of_nat (48 + n mod 10)])"

definition show_int :: "int \<Rightarrow> jstring" where
  "show_int i = (if i < 0 then 0x2D # show_nat (nat (- i)) else show_nat (nat i))"

text \<open>\<open>s.split('\n')\<close>: the pieces between line feeds; the empty string has one piece.\<close>

primrec split_from :: "jstring \<Rightarrow> jstring \<Rightarrow> jstring list" where
  "split_from cur [] = [cur]"
| "split_from cur (c # cs) =
     (if c = 0x0A then cur # split_from [] cs else split_from (cur @ [c]) cs)"

definition split_lines :: "jstring \<Rightarrow> jstring list" where
  "split_lines s = split_from [] s"


text \<open>\<open>xs.slice(0, n)\<close> for an integer \<open>n\<close> (a negative \<open>n\<close> counts from the end), and \<open>xs.slice(-n)\<close>.\<close>

definition slice_to :: "int \<Rightarrow> 'a list \<Rightarrow> 'a list" where
  "slice_to n xs = (if 0 \<le> n then take (nat n) xs else take (length xs - nat (- n)) xs)"

definition slice_last :: "nat \<Rightarrow> 'a list \<Rightarrow> 'a list" where
  "slice_last n xs = drop (length xs - n) xs"

text \<open>
  \<open>xs.sort(cmp)\<close>: the sort is stable, and a comparator result that is \<open>NaN\<close> counts as
  0. The model is the stable insertion sort; for a comparator that is not a consistent
  order the language leaves the resulting order to the implementation.
\<close>

primrec insert_cmp :: "('a \<Rightarrow> 'a \<Rightarrow> int) \<Rightarrow> 'a \<Rightarrow> 'a list \<Rightarrow> 'a list" where
  "insert_cmp cmp x [] = [x]"
| "insert_cmp cmp x (y # ys) = (if cmp x y \<le> 0 then x # y # ys else y # insert_cmp cmp x ys)"

definition sort_cmp :: "('a \<Rightarrow> 'a \<Rightarrow> int) \<Rightarrow> 'a list \<Rightarrow> 'a list" where
  "sort_cmp cmp xs = foldr (insert_cmp cmp) xs []"

section \<open>JavaScript values and errors\<close>

text \<open>
  A thrown error, with the \<open>message\<close> the sources read. No error of these programs has a
  \<open>stdout\<close> property: see \<open>promisifyExec\<close> below.
\<close>

record js_error =
  err_message :: jstring

text \<open>
  A parsed JSON value, for the payloads the handlers pass through unread. The keys of an
  object are pairwise distinct.
\<close>

datatype json =
    JNull
  | JBool bool
  | JNum rat
  | JStr jstring
  | JArr "json list"
  | JObj "(jstring \<times> json) list"

fun truthy :: "json \<Rightarrow> bool" where
  "truthy JNull = False"
| "truthy (JBool b) = b"
| "truthy (JNum n) = (n \<noteq> 0)"
| "truthy (JStr s) = (s \<noteq> [])"
| "truthy (JArr xs) = True"
| "truthy (JObj kvs) = True"

text \<open>\<open>v.k\<close> on a value that is not \<open>null\<close>: only an object has own properties here.\<close>

fun get_field :: "json \<Rightarrow> jstring \<Rightarrow> json option" where
  "get_field (JObj kvs) k = map_of kvs k"
| "get_field v k = None"

text \<open>\<open>x || d\<close> on an optional string: an absent or empty string gives \<open>d\<close>.\<close>

definition or_default :: "jstring option \<Rightarrow> jstring \<Rightarrow> jstring" where
  "or_default x d = (case x of Some s \<Rightarrow> (if s = [] then d else s) | None \<Rightarrow> d)"

text \<open>An optional string inside a concatenation or a template literal.\<close>

definition str_of :: "jstring option \<Rightarrow> jstring" where
  "str_of x = (case x of Some s \<Rightarrow> s | None \<Rightarrow> js ''undefined'')"

section \<open>Search backend adapter (offline-sqlite-backend.ts)\<close>

datatype SearchMode = lexical | semantic | hybrid

record SearchRequest =
  req_query :: jstring
  req_mode :: "SearchMode option"
  req_limit :: "int option"
  req_k :: "int option"

text \<open>An engine identifier is \<open>any\<close> in the source; \<open>String(item.id)\<close> renders it.\<close>

datatype idval = IdNum int | IdStr jstring | IdNull | IdUndefined

fun String_id :: "idval \<Rightarrow> jstring" where
  "String_id (IdNum n) = show_int n"
| "String_id (IdStr s) = s"
| "String_id IdNull = js ''null''"
| "String_id IdUndefined = js ''undefined''"

text \<open>The fields the adapter reads from an engine item; an absent field is \<open>None\<close>.\<close>

record raw_item =
  item_id :: idval
  item_text :: "jstring option"
  item_source :: "jstring option"
  item_title :: "jstring option"
  item_created_at :: "jstring option"
  item_tags :: "jstring option"
  item_source_id :: "jstring option"

text \<open>
  An engine result either nests the item under \<open>item\<close> or carries the item's fields
  itself (\<open>r.item ?? r\<close>); the scores are read from the result. Numbers are only copied.
\<close>

record engine_result =
  r_item :: "raw_item option"
  r_self :: raw_item
  r_score :: "rat option"
  r_lexicalScore :: "rat option"
  r_semanticScore :: "rat option"

record payload =
  p_memory_id :: idval
  p_text :: jstring
  p_tags :: "jstring option"
  p_source :: "jstring option"
  p_source_id :: "jstring option"

record SearchItem =
  si_id :: jstring
  si_kind :: jstring
  si_source :: "jstring option"
  si_title :: "jstring option"
  si_snippet :: jstring
  si_score :: rat
  si_score_fts :: "rat option"
  si_score_embed :: "rat option"
  si_created_at :: "jstring option"
  si_payload :: payload

text \<open>\<open>buildSnippet(text, maxLen = 220)\<close>\<close>

definition ellipsis :: jschar where
  "ellipsis = 0x2026"

definition buildSnippet :: "jstring \<Rightarrow> nat \<Rightarrow> jstring" where
  "buildSnippet str maxLen =
     (let singleLine = trim (collapse_ws str)
      in if length singleLine \<le> maxLen then singleLine
         else take maxLen singleLine @ [ellipsis])"

definition maxLen_default :: nat where
  "maxLen_default = 220"

definition item_of :: "engine_result \<Rightarrow> raw_item" where
  "item_of r = (case r_item r of Some i \<Rightarrow> i | None \<Rightarrow> r_self r)"

definition text_of :: "raw_item \<Rightarrow> jstring" where
  "text_of i = (case item_text i of Some t \<Rightarrow> t | None \<Rightarrow> [])"

definition payload_of :: "raw_item \<Rightarrow> payload" where
  "payload_of i =
     \<lparr> p_memory_id = item_id i, p_text = text_of i, p_tags = item_tags i,
       p_source = item_source i, p_source_id = item_source_id i \<rparr>"

text \<open>The callback of \<open>results.map\<close> in \<open>searchLexical\<close>.\<close>

definition lexical_item :: "engine_result \<Rightarrow> SearchItem" where
  "lexical_item r =
     (let i = item_of r
      in \<lparr> si_id = String_id (item_id i),
           si_kind = js ''memory'',
           si_source = Some (case item_source i of Some s \<Rightarrow> s | None \<Rightarrow> js ''openclaw''),
           si_title = item_title i,
           si_snippet = buildSnippet (text_of i) maxLen_default,
           si_score = (case r_score r of Some s \<Rightarrow> s
                       | None \<Rightarrow> (case r_lexicalScore r of Some l \<Rightarrow> l | None \<Rightarrow> 0)),
           si_score_fts = (case r_lexicalScore r of Some l \<Rightarrow> Some l | None \<Rightarrow> r_score r),
           si_score_embed = None,
           si_created_at = item_created_at i,
           si_payload = payload_of i \<rparr>)"

text \<open>The callback of \<open>results.map\<close> in \<open>searchHybrid\<close>.\<close>

definition hybrid_item :: "engine_result \<Rightarrow> SearchItem" where
  "hybrid_item r =
     (let i = item_of r
      in \<lparr> si_id = String_id (item_id i),
           si_kind = js ''memory'',
           si_source = Some (case item_source i of Some s \<Rightarrow> s | None \<Rightarrow> js ''openclaw''),
           si_title = item_title i,
           si_snippet = buildSnippet (text_of i) maxLen_default,
           si_score = (case r_score r of Some s \<Rightarrow> s | None \<Rightarrow> 0),
           si_score_fts = r_lexicalScore r,
           si_score_embed = r_semanticScore r,
           si_created_at = item_created_at i,
           si_payload = payload_of i \<rparr>)"

text \<open>
  The memory engine is an external library. It is a parameter of the model: four
  functions that may throw (\<open>Inl\<close>), over an abstract connection type \<open>'db\<close>. Every call
  the adapter makes is recorded, in order.
\<close>

record lexical_response =
  results :: "engine_result list option"
  escapedQuery :: jstring

record MemConfig =
  mc_dbPath :: jstring
  mc_ollamaBaseUrl :: jstring
  mc_embeddingModel :: jstring
  mc_ollamaTimeoutMs :: int

record hybrid_opts =
  topK :: int
  candidates :: int
  ho_semanticWeight :: rat

record 'db engine =
  openDb :: "jstring \<Rightarrow> js_error + 'db"
  initSchema :: "'db \<Rightarrow> js_error + unit"
  searchItems :: "'db \<Rightarrow> jstring \<Rightarrow> int \<Rightarrow> js_error + lexical_response"
  hybridSearch :: "'db \<Rightarrow> MemConfig \<Rightarrow> jstring \<Rightarrow> hybrid_opts \<Rightarrow> js_error + engine_result list"

datatype engine_call =
    CallOpenDb jstring
  | CallInitSchema
  | CallSearchItems jstring int
  | CallHybridSearch jstring hybrid_opts

record cfg =
  dbPath :: jstring
  defaultMode :: SearchMode
  defaultTopK :: int
  defaultCandidates :: int
  semanticWeight :: rat
  ollamaBaseUrl :: jstring
  embeddingModel :: jstring
  ollamaTimeoutMs :: int

type_synonym search_outcome = "(js_error + SearchItem list) \<times> engine_call list"

definition searchLexical :: "'db engine \<Rightarrow> 'db \<Rightarrow> jstring \<Rightarrow> int \<Rightarrow> search_outcome" where
  "searchLexical eng db query limit =
     (case searchItems eng db query limit of
        Inl e \<Rightarrow> (Inl e, [CallSearchItems query limit])
      | Inr res \<Rightarrow>
          (Inr (map lexical_item (case results res of Some rs \<Rightarrow> rs | None \<Rightarrow> [])),
           [CallSearchItems query limit]))"

definition searchHybrid ::
  "'db engine \<Rightarrow> cfg \<Rightarrow> 'db \<Rightarrow> jstring \<Rightarrow> int \<Rightarrow> int \<Rightarrow> search_outcome" where
  "searchHybrid eng c db query limit cands =
     (let memCfg = \<lparr> mc_dbPath = dbPath c, mc_ollamaBaseUrl = ollamaBaseUrl c,
                      mc_embeddingModel = embeddingModel c,
                      mc_ollamaTimeoutMs = ollamaTimeoutMs c \<rparr>
      in case searchItems eng db query 1 of
           Inl e \<Rightarrow> (Inl e, [CallSearchItems query 1])
         | Inr res \<Rightarrow>
             (let opts = \<lparr> topK = limit, candidates = cands,
                            ho_semanticWeight = semanticWeight c \<rparr>
              in case hybridSearch eng db memCfg (escapedQuery res) opts of
                   Inl e \<Rightarrow>
                     (Inl e, [CallSearchItems query 1, CallHybridSearch (escapedQuery res) opts])
                 | Inr rs \<Rightarrow>
                     (Inr (map hybrid_item rs),
                      [CallSearchItems query 1, CallHybridSearch (escapedQuery res) opts])))"

text \<open>\<open>OfflineSqliteSearchBackend.search\<close>\<close>

definition search :: "'db engine \<Rightarrow> cfg \<Rightarrow> SearchRequest \<Rightarrow> search_outcome" where
  "search eng c req =
     (let mode = (case req_mode req of Some m \<Rightarrow> m | None \<Rightarrow> defaultMode c);
          limit = (case req_limit req of Some l \<Rightarrow> l | None \<Rightarrow> defaultTopK c);
          cands = (case req_k req of Some k \<Rightarrow> k | None \<Rightarrow> defaultCandidates c);
          query = trim (req_query req)
      in if query = [] then (Inr [], [])
         else case openDb eng (dbPath c) of
                Inl e \<Rightarrow> (Inl e, [CallOpenDb (dbPath c)])
              | Inr db \<Rightarrow>
                  (case initSchema eng db of
                     Inl e \<Rightarrow> (Inl e, [CallOpenDb (dbPath c), CallInitSchema])
                   | Inr u \<Rightarrow>
                       (let (out, calls) =
                              (if mode = lexical then searchLexical eng db query limit
                               else searchHybrid eng c db query limit cands)
                        in (out, [CallOpenDb (dbPath c), CallInitSchema] @ calls))))"

section \<open>Shared pieces of the HTTP and tool servers\<close>

text \<open>
  What the handlers see of the outside: the companion service, the command line of the
  host platform, the clock and the built-in parsers are parameters. The payloads the
  sources read field by field are typed as the upstream format has them (strings where
  the sources call string methods, lists where they iterate); an absent or \<open>null\<close>
  field is \<open>None\<close>.
\<close>

record 'a http_response =
  resp_ok :: bool
  resp_status :: int
  resp_json :: "js_error + 'a"

record schedule =
  sch_kind :: "jstring option"
  sch_expr :: "jstring option"
  sch_everyMs :: "rat option"
  sch_at :: "jstring option"

record job =
  job_id :: "jstring option"
  job_name :: "jstring option"
  job_enabled :: "bool option"
  job_schedule :: "schedule option"
  job_nextRunAt :: "jstring option"
  job_agentId :: "jstring option"
  job_owner :: "jstring option"
  job_kind :: "jstring option"
  job_description :: "jstring option"
  job_payloadSummary :: "jstring option"
  job_lastRunAtMs :: "int option"

text \<open>The parsed cron listing: an array of jobs, an object with an optional \<open>jobs\<close>, or \<open>null\<close>.\<close>

datatype cron_payload = CronArray "job list" | CronObject "job list option" | CronNull

record logline =
  ll_type :: "jstring option"
  ll_time :: "jstring option"
  ll_subsystem :: "jstring option"
  ll_message :: "jstring option"
  ll_level :: "jstring option"

text \<open>
  What \<open>child_process.exec\<close> hands to its callback: the error, if the command failed,
  and the output collected so far.
\<close>

record exec_callback =
  cb_err :: "js_error option"
  cb_stdout :: jstring
  cb_stderr :: jstring

record world =
  fetch_sessions :: "js_error + json http_response"
  fetch_cron :: "js_error + cron_payload http_response"
  fetch_activity :: "int \<Rightarrow> js_error + json http_response"
  cpExec :: "jstring \<Rightarrow> exec_callback"
  JSON_parse :: "jstring \<Rightarrow> js_error + json"
  JSON_stringify :: "json \<Rightarrow> jstring"
  parse_cron :: "jstring \<Rightarrow> js_error + cron_payload"
  parse_log :: "jstring \<Rightarrow> js_error + logline"
  Date_getTime :: "jstring option \<Rightarrow> int option"

datatype io_call = Fetch jstring | Exec jstring

text \<open>
  \<open>promisifyExec(fn)\<close>, and the \<open>exec\<close> of the tool server, which is written the same way:
  on an error the promise rejects with the error alone, and the output that came with
  it is dropped; otherwise it resolves with the output.
\<close>

definition promisifyExec :: "(jstring \<Rightarrow> exec_callback) \<Rightarrow> jstring \<Rightarrow> js_error + jstring" where
  "promisifyExec fn cmd =
     (case cb_err (fn cmd) of Some err \<Rightarrow> Inl err | None \<Rightarrow> Inr (cb_stdout (fn cmd)))"

definition exec :: "world \<Rightarrow> jstring \<Rightarrow> js_error + jstring" where
  "exec w = promisifyExec (cpExec w)"

definition TypeError :: js_error where
  "TypeError = \<lparr> err_message = js ''TypeError'' \<rparr>"

text \<open>
  The common body of the three \<open>fetch...FromPlugin\<close> functions: a rejected fetch, a
  status that is not ok and a body that is not JSON all throw.
\<close>

definition plugin_get :: "js_error + 'a http_response \<Rightarrow> js_error + 'a" where
  "plugin_get r =
     (case r of
        Inl e \<Rightarrow> Inl e
      | Inr resp \<Rightarrow>
          if \<not> resp_ok resp
          then Inl \<lparr> err_message = js ''plugin '' @ show_int (resp_status resp) \<rparr>
          else resp_json resp)"

text \<open>
  \<open>stdout.replace(/\x1b\[[0-9;]*m/g, '')\<close>. After ESC and an opening bracket the
  digits and semicolons are skipped; the match succeeds when an \<open>m\<close> follows.
\<close>

definition is_ansi_param :: "jschar \<Rightarrow> bool" where
  "is_ansi_param c \<longleftrightarrow> (0x30 \<le> c \<and> c \<le> 0x39) \<or> c = 0x3B"

definition ansi_rest :: "jstring \<Rightarrow> jstring option" where
  "ansi_rest s =
     (case s of
        [] \<Rightarrow> None
      | b # r \<Rightarrow>
          if b \<noteq> 0x5B then None
          else (case dropWhile is_ansi_param r of
                  [] \<Rightarrow> None
                | m # rest \<Rightarrow> if m = 0x6D then Some rest else None))"

function strip_ansi :: "jstring \<Rightarrow> jstring" where
  "strip_ansi [] = []"
| "strip_ansi (c # cs) =
     (if c = 0x1B
      then (case ansi_rest cs of Some rest \<Rightarrow> strip_ansi rest | None \<Rightarrow> c # strip_ansi cs)
      else c # strip_ansi cs)"
  by pat_completeness auto
termination
proof (relation "measure length")
  show "wf (measure length)" by simp
next
  fix c :: jschar and cs rest :: jstring
  assume "c = 0x1B" and r: "ansi_rest cs = Some rest"
  from r obtain b r' where cs: "cs = b # r'" and d: "rest \<in> set (tl (dropWhile is_ansi_param r') # [])"
    by (auto simp: ansi_rest_def split: list.splits if_splits)
  have "length (dropWhile is_ansi_param r') \<le> length r'"
    by (rule length_dropWhile_le)
  with cs d show "(rest, c # cs) \<in> measure length"
    by simp
next
  fix c :: jschar and cs :: jstring
  show "(cs, c # cs) \<in> measure length" by simp
next
  fix c :: jschar and cs :: jstring
  show "(cs, c # cs) \<in> measure length" by simp
qed

text \<open>
  \<open>const jsonStart = s.search(/[\[{]/); jsonStart >= 0 ? s.slice(jsonStart) : s\<close>
\<close>

definition is_json_open :: "jschar \<Rightarrow> bool" where
  "is_json_open c \<longleftrightarrow> c = 0x5B \<or> c = 0x7B"

definition json_part :: "jstring \<Rightarrow> jstring" where
  "json_part s = (if list_ex is_json_open s then dropWhile (\<lambda>c. \<not> is_json_open c) s else s)"

text \<open>The three regular expressions of the log classifiers.\<close>

definition is_word :: "jschar \<Rightarrow> bool" where
  "is_word c \<longleftrightarrow> (0x30 \<le> c \<and> c \<le> 0x39) \<or> (0x41 \<le> c \<and> c \<le> 0x5A) \<or> c = 0x5F \<or>
     (0x61 \<le> c \<and> c \<le> 0x7A)"

text \<open>
  \<open>s.match(/p(\w+)/)\<close> for a literal prefix \<open>p\<close>: the capture at the leftmost position
  where \<open>p\<close> is followed by a word character.
\<close>

primrec match_word_after :: "jstring \<Rightarrow> jstring \<Rightarrow> jstring option" where
  "match_word_after p [] = None"
| "match_word_after p (c # cs) =
     (if starts_with (c # cs) p \<and> takeWhile is_word (drop (length p) (c # cs)) \<noteq> []
      then Some (takeWhile is_word (drop (length p) (c # cs)))
      else match_word_after p cs)"

definition toolMatch :: "jstring \<Rightarrow> jstring option" where
  "toolMatch m = match_word_after (js ''tool='') m"

definition stateMatch :: "jstring \<Rightarrow> jstring option" where
  "stateMatch m = match_word_after (js ''new='') m"

text \<open>\<open>s.match(/tool (start|end)/)\<close>: the capture at the leftmost match.\<close>

primrec actionMatch :: "jstring \<Rightarrow> jstring option" where
  "actionMatch [] = None"
| "actionMatch (c # cs) =
     (if starts_with (c # cs) (js ''tool start'') then Some (js ''start'')
      else if starts_with (c # cs) (js ''tool end'') then Some (js ''end'')
      else actionMatch cs)"

datatype ActivityKind =
    K_session_start | K_session_end | K_message | K_tool | K_cron | K_system

record ActivityEvent =
  a_id :: jstring
  a_ts :: jstring
  a_kind :: ActivityKind
  a_sessionKey :: "jstring option"
  a_agentId :: "jstring option"
  a_channel :: "jstring option"
  a_summary :: jstring

record session =
  s_sessionId :: "jstring option"
  s_key :: "jstring option"
  s_displayName :: "jstring option"
  s_updatedAt :: "int option"

datatype details = DSession session | DJob job | DActivity ActivityEvent

text \<open>
  An event of the timeline and activity feeds. The log classifiers set \<open>level\<close> and no
  \<open>details\<close>, the tool server sets no \<open>id\<close>, the aggregator sets \<open>details\<close> and no
  \<open>level\<close>; \<open>ts\<close> is absent when the log line has no \<open>time\<close>.
\<close>

record TimelineEvent =
  ev_id :: "jstring option"
  ev_ts :: "jstring option"
  ev_kind :: jstring
  ev_summary :: jstring
  ev_level :: "jstring option"
  ev_details :: "details option"

record task_item =
  t_id :: "jstring option"
  t_name :: "jstring option"
  t_enabled :: bool
  t_schedule :: "jstring option"
  t_nextRun :: "jstring option"
  t_agentId :: "jstring option"
  t_kind :: "jstring option"
  t_description :: "jstring option"
  t_payloadSummary :: "jstring option"

text \<open>A response body, as the value that is serialised; \<open>BodyOk\<close> is \<open>{ok: true}\<close>.\<close>

datatype body =
    BodyJson json
  | BodyTasks "task_item list"
  | BodyEvents "TimelineEvent list"
  | BodyActivity "ActivityEvent list"
  | BodyError jstring
  | BodyOk

record response =
  statusCode :: int
  contentType :: jstring
  resp_body :: body

definition json_response :: "int \<Rightarrow> body \<Rightarrow> response" where
  "json_response code b =
     \<lparr> statusCode = code, contentType = js ''application/json'', resp_body = b \<rparr>"

text \<open>The comparator of the timeline sorts: \<open>new Date(b.ts).getTime() - new Date(a.ts).getTime()\<close>.\<close>

definition ts_cmp :: "(jstring option \<Rightarrow> int option) \<Rightarrow> TimelineEvent \<Rightarrow> TimelineEvent \<Rightarrow> int" where
  "ts_cmp getTime a b =
     (case (getTime (ev_ts b), getTime (ev_ts a)) of
        (Some tb, Some ta) \<Rightarrow> tb - ta
      | _ \<Rightarrow> 0)"

section \<open>The front-end server (frontend.ts)\<close>

subsection \<open>Scheduled tasks\<close>

text \<open>\<open>formatSchedule(schedule)\<close>; \<open>Math.round\<close> rounds half up, as \<^const>\<open>round\<close> does.\<close>

definition formatSchedule :: "schedule option \<Rightarrow> jstring" where
  "formatSchedule schedule =
     (case schedule of
        None \<Rightarrow> js ''unknown''
      | Some s \<Rightarrow>
          if sch_kind s = Some (js ''cron'') then or_default (sch_expr s) (js ''cron'')
          else if sch_kind s = Some (js ''every'') then
            (let mins = round ((case sch_everyMs s of Some ms \<Rightarrow> ms | None \<Rightarrow> 0) / 60000)
             in if mins \<noteq> 0 then js ''every '' @ show_int mins @ js ''min'' else js ''every'')
          else if sch_kind s = Some (js ''at'') then
            (case sch_at s of
               Some a \<Rightarrow> if a \<noteq> [] then js ''once at '' @ a else js ''once''
             | None \<Rightarrow> js ''once'')
          else js ''unknown'')"

text \<open>\<open>x || null\<close> on an optional string.\<close>

definition or_null :: "jstring option \<Rightarrow> jstring option" where
  "or_null x = (case x of Some s \<Rightarrow> (if s = [] then None else Some s) | None \<Rightarrow> None)"

text \<open>The callback of \<open>jobs.map\<close> in \<open>fetchTasksFromPlugin\<close>.\<close>

definition plugin_task :: "job \<Rightarrow> task_item" where
  "plugin_task j =
     \<lparr> t_id = job_id j, t_name = job_name j,
       t_enabled = (job_enabled j \<noteq> Some False),
       t_schedule = Some (formatSchedule (job_schedule j)),
       t_nextRun = or_null (job_nextRunAt j),
       t_agentId = (case or_null (job_agentId j) of Some a \<Rightarrow> Some a | None \<Rightarrow> or_null (job_owner j)),
       t_kind = job_kind j, t_description = job_description j,
       t_payloadSummary = job_payloadSummary j \<rparr>"

definition fetchTasksFromPlugin :: "world \<Rightarrow> js_error + task_item list" where
  "fetchTasksFromPlugin w =
     (case plugin_get (fetch_cron w) of
        Inl e \<Rightarrow> Inl e
      | Inr (CronArray jobs) \<Rightarrow> Inr (map plugin_task jobs)
      | Inr (CronObject jobs) \<Rightarrow> Inr (map plugin_task (case jobs of Some xs \<Rightarrow> xs | None \<Rightarrow> []))
      | Inr CronNull \<Rightarrow> Inl TypeError)"

text \<open>The schedule expression written inline in the command-line fallback of \<open>/tasks\<close>.\<close>

definition cli_schedule :: "schedule option \<Rightarrow> jstring option" where
  "cli_schedule schedule =
     (case schedule of
        None \<Rightarrow> Some (js ''unknown'')
      | Some s \<Rightarrow>
          if sch_kind s = Some (js ''cron'') then sch_expr s
          else if sch_kind s = Some (js ''every'') then
            Some (js ''every '' @
                  show_int (round ((case sch_everyMs s of Some ms \<Rightarrow> ms | None \<Rightarrow> 0) / 60000)) @
                  js ''min'')
          else if sch_kind s = Some (js ''at'') then Some (js ''once at '' @ str_of (sch_at s))
          else Some (js ''unknown''))"

definition cli_task :: "job \<Rightarrow> task_item" where
  "cli_task j =
     \<lparr> t_id = job_id j, t_name = job_name j,
       t_enabled = (job_enabled j \<noteq> Some False),
       t_schedule = cli_schedule (job_schedule j),
       t_nextRun = or_null (job_nextRunAt j),
       t_agentId = job_agentId j,
       t_kind = None, t_description = None, t_payloadSummary = None \<rparr>"

text \<open>The inner \<open>try\<close> block of the \<open>/tasks\<close> handler.\<close>

definition tasks_from_cli :: "world \<Rightarrow> js_error + task_item list" where
  "tasks_from_cli w =
     (case exec w (js ''openclaw cron list --json'') of
        Inl e \<Rightarrow> Inl e
      | Inr stdout \<Rightarrow>
          (case parse_cron w (json_part (strip_ansi stdout)) of
             Inl e \<Rightarrow> Inl e
           | Inr CronNull \<Rightarrow> Inl TypeError
           | Inr (CronArray jobs) \<Rightarrow> Inr []
           | Inr (CronObject jobs) \<Rightarrow>
               Inr (map cli_task (case jobs of Some xs \<Rightarrow> xs | None \<Rightarrow> []))))"

text \<open>\<open>e?.message || err?.message || 'tasks failed'\<close>\<close>

definition tasks_error_message :: "js_error \<Rightarrow> js_error \<Rightarrow> jstring" where
  "tasks_error_message e err =
     (if err_message e \<noteq> [] then err_message e
      else if err_message err \<noteq> [] then err_message err
      else js ''tasks failed'')"

definition tasks_handler :: "world \<Rightarrow> response \<times> io_call list" where
  "tasks_handler w =
     (case fetchTasksFromPlugin w of
        Inr items \<Rightarrow>
          (json_response 200 (BodyTasks items), [Fetch (js ''/clawscope/cron?includeDisabled=true'')])
      | Inl err \<Rightarrow>
          (case tasks_from_cli w of
             Inr items \<Rightarrow>
               (json_response 200 (BodyTasks items),
                [Fetch (js ''/clawscope/cron?includeDisabled=true''),
                 Exec (js ''openclaw cron list --json'')])
           | Inl e \<Rightarrow>
               (json_response 500 (BodyError (tasks_error_message e err)),
                [Fetch (js ''/clawscope/cron?includeDisabled=true''),
                 Exec (js ''openclaw cron list --json'')])))"

subsection \<open>Sessions and their cache\<close>

record cache =
  lastSessionsJson :: json
  lastSessionsAt :: int

definition initial_cache :: cache where
  "initial_cache = \<lparr> lastSessionsJson = JNull, lastSessionsAt = 0 \<rparr>"

definition SESSIONS_TTL_MS :: int where
  "SESSIONS_TTL_MS = 15 * 60 * 1000"

definition fetchSessionsFromPlugin :: "world \<Rightarrow> js_error + json" where
  "fetchSessionsFromPlugin w = plugin_get (fetch_sessions w)"

text \<open>The inner \<open>try\<close> block of the \<open>/sessions\<close> handler, up to the parsed data.\<close>

definition sessions_from_cli :: "world \<Rightarrow> js_error + json" where
  "sessions_from_cli w =
     (case exec w (js ''openclaw sessions --json'') of
        Inl e \<Rightarrow> Inl e
      | Inr stdout \<Rightarrow> JSON_parse w (json_part (strip_ansi stdout)))"

text \<open>
  The \<open>/sessions\<close> handler at time \<open>now\<close>: the response, the cache after the request and
  the calls made.
\<close>

definition sessions_handler :: "world \<Rightarrow> int \<Rightarrow> cache \<Rightarrow> response \<times> cache \<times> io_call list" where
  "sessions_handler w now st =
     (if truthy (lastSessionsJson st) \<and> now - lastSessionsAt st < SESSIONS_TTL_MS
      then (json_response 200 (BodyJson (lastSessionsJson st)), st, [])
      else
        (case fetchSessionsFromPlugin w of
           Inr data \<Rightarrow>
             (json_response 200 (BodyJson data),
              \<lparr> lastSessionsJson = data, lastSessionsAt = now \<rparr>,
              [Fetch (js ''/clawscope/sessions'')])
         | Inl err \<Rightarrow>
             (case sessions_from_cli w of
                Inr data \<Rightarrow>
                  (json_response 200 (BodyJson data),
                   \<lparr> lastSessionsJson = data, lastSessionsAt = now \<rparr>,
                   [Fetch (js ''/clawscope/sessions''), Exec (js ''openclaw sessions --json'')])
              | Inl e \<Rightarrow>
                  (json_response 200 (BodyJson (JArr [])), st,
                   [Fetch (js ''/clawscope/sessions''), Exec (js ''openclaw sessions --json'')]))))"

subsection \<open>Log lines\<close>

definition benign :: jstring where
  "benign = js ''Config was last written by a newer OpenClaw''"

definition tool_summary :: "jstring \<Rightarrow> jstring \<Rightarrow> jstring" where
  "tool_summary action tool = (if action = js ''start'' then 0x25B6 else 0x2713) # 0x20 # tool"

definition log_event ::
  "logline \<Rightarrow> jstring \<Rightarrow> jstring \<Rightarrow> jstring \<Rightarrow> jstring \<Rightarrow> TimelineEvent" where
  "log_event parsed suffix kind summary level =
     \<lparr> ev_id = Some (str_of (ll_time parsed) @ js ''-'' @ suffix), ev_ts = ll_time parsed,
       ev_kind = kind, ev_summary = summary, ev_level = Some level, ev_details = None \<rparr>"

text \<open>The chain of rules in the loop of \<open>/activity\<close>, on a parsed line.\<close>

definition activity_classify :: "logline \<Rightarrow> TimelineEvent list" where
  "activity_classify parsed =
     (let subsystem = or_default (ll_subsystem parsed) [];
          message = or_default (ll_message parsed) [];
          level = or_default (ll_level parsed) (js ''debug'')
      in if subsystem = js ''agent/embedded'' \<and> includes_str message (js ''tool '') then
           (case (toolMatch message, actionMatch message) of
              (Some tool, Some action) \<Rightarrow>
                [log_event parsed tool (js ''tool'') (tool_summary action tool) level]
            | _ \<Rightarrow> [])
         else if subsystem = js ''diagnostic'' \<and> includes_str message (js ''session state'') then
           (case stateMatch message of
              Some state \<Rightarrow>
                [log_event parsed (js ''session'') (js ''session'') (js ''Session '' @ state) level]
            | None \<Rightarrow> [])
         else if subsystem = js ''cron'' \<or> includes_str message (js ''cron'') then
           [log_event parsed (js ''cron'') (js ''cron'') (take 60 message) level]
         else if (level = js ''warn'' \<or> level = js ''error'') \<and> \<not> includes_str message benign then
           [log_event parsed (js ''warn'') (js ''alert'') (take 80 message) level]
         else [])"

text \<open>The body of the loop of \<open>/activity\<close> after \<open>JSON.parse\<close>, and the whole body for a string.\<close>

definition activity_entry :: "logline \<Rightarrow> TimelineEvent list" where
  "activity_entry parsed =
     (if or_default (ll_type parsed) [] \<noteq> [] \<and> ll_type parsed \<noteq> Some (js ''log'') then []
      else activity_classify parsed)"

definition activity_line :: "world \<Rightarrow> jstring \<Rightarrow> TimelineEvent list" where
  "activity_line w line =
     (if trim line = [] \<or> \<not> starts_with line (js ''{'') then []
      else (case parse_log w line of Inl e \<Rightarrow> [] | Inr parsed \<Rightarrow> activity_entry parsed))"

text \<open>The chain of rules in the loop of \<open>/timeline-data\<close>, which has a rule for memory.\<close>

definition timeline_classify :: "logline \<Rightarrow> TimelineEvent list" where
  "timeline_classify parsed =
     (let subsystem = or_default (ll_subsystem parsed) [];
          message = or_default (ll_message parsed) [];
          level = or_default (ll_level parsed) (js ''debug'')
      in if subsystem = js ''agent/embedded'' \<and> includes_str message (js ''tool '') then
           (case (toolMatch message, actionMatch message) of
              (Some tool, Some action) \<Rightarrow>
                [log_event parsed tool (js ''tool'') (tool_summary action tool) level]
            | _ \<Rightarrow> [])
         else if subsystem = js ''diagnostic'' \<and> includes_str message (js ''session state'') then
           (case stateMatch message of
              Some state \<Rightarrow>
                [log_event parsed (js ''session'') (js ''session'') (js ''Session '' @ state) level]
            | None \<Rightarrow> [])
         else if subsystem = js ''memory'' \<or> includes_str message (js ''memory'') \<or>
                 includes_str message (js ''Memory'') then
           [log_event parsed (js ''memory'') (js ''memory'') (take 80 message) level]
         else if subsystem = js ''cron'' \<or> includes_str message (js ''cron'') then
           [log_event parsed (js ''cron'') (js ''cron'') (take 60 message) level]
         else if (level = js ''warn'' \<or> level = js ''error'') \<and> \<not> includes_str message benign then
           [log_event parsed (js ''alert'') (js ''alert'') (take 80 message) level]
         else [])"

text \<open>
  \<open>eventTs < sinceTs\<close> on two results of \<open>getTime()\<close>: false when either is \<open>NaN\<close>.
\<close>

definition before :: "int option \<Rightarrow> int option \<Rightarrow> bool" where
  "before a b = (case (a, b) of (Some x, Some y) \<Rightarrow> x < y | _ \<Rightarrow> False)"

definition timeline_entry :: "world \<Rightarrow> int option \<Rightarrow> logline \<Rightarrow> TimelineEvent list" where
  "timeline_entry w sinceTs parsed =
     (if ll_type parsed \<noteq> Some (js ''log'') then []
      else if before (Date_getTime w (ll_time parsed)) sinceTs then []
      else timeline_classify parsed)"

definition timeline_line :: "world \<Rightarrow> int option \<Rightarrow> jstring \<Rightarrow> TimelineEvent list" where
  "timeline_line w sinceTs line =
     (if trim line = [] \<or> \<not> starts_with line (js ''{'') then []
      else (case parse_log w line of
              Inl e \<Rightarrow> []
            | Inr parsed \<Rightarrow> timeline_entry w sinceTs parsed))"

text \<open>
  \<open>stdout = result.stdout\<close>, or \<open>e?.stdout || ''\<close> when \<open>exec\<close> rejects: the error that
  \<open>promisifyExec\<close> rejects with has no \<open>stdout\<close>, so this is the empty string.
\<close>

definition stdout_of :: "js_error + jstring \<Rightarrow> jstring" where
  "stdout_of r = (case r of Inr out \<Rightarrow> out | Inl e \<Rightarrow> [])"

text \<open>
  The \<open>/timeline-data\<close> handler of this server, for the resolved \<open>since\<close> and the parsed
  \<open>limit\<close> (\<open>None\<close> is \<open>NaN\<close>).
\<close>

definition logs_command :: "int option \<Rightarrow> jstring" where
  "logs_command limit =
     js ''openclaw logs --json --limit '' @ (case limit of Some n \<Rightarrow> show_int n | None \<Rightarrow> js ''NaN'')"

definition timeline_data_handler ::
  "world \<Rightarrow> jstring \<Rightarrow> int option \<Rightarrow> response \<times> io_call list" where
  "timeline_data_handler w since limit =
     (let stdout = stdout_of (exec w (logs_command limit));
          lines = split_lines (strip_ansi stdout);
          sinceTs = Date_getTime w (Some since);
          events = concat (map (timeline_line w sinceTs) lines)
      in (json_response 200 (BodyEvents (sort_cmp (ts_cmp (Date_getTime w)) events)),
          [Exec (logs_command limit)]))"

subsection \<open>Activity\<close>

definition fetchActivityFromPlugin :: "world \<Rightarrow> int \<Rightarrow> js_error + json" where
  "fetchActivityFromPlugin w limit = plugin_get (fetch_activity w limit)"

text \<open>\<open>x => (typeof x === 'string' ? x : JSON.stringify(x))\<close>\<close>

definition as_line :: "world \<Rightarrow> json \<Rightarrow> json" where
  "as_line w x = (case x of JStr s \<Rightarrow> JStr s | _ \<Rightarrow> JStr (JSON_stringify w x))"

text \<open>The lines taken from the plugin's answer; \<open>data.lines\<close> is taken as it is.\<close>

definition plugin_lines :: "world \<Rightarrow> json \<Rightarrow> json list" where
  "plugin_lines w data =
     (case data of
        JArr xs \<Rightarrow> map (as_line w) xs
      | _ \<Rightarrow>
          (case (if truthy data then get_field data (js ''lines'') else None) of
             Some (JArr ls) \<Rightarrow> ls
           | _ \<Rightarrow>
               (case (if truthy data then get_field data (js ''logs'') else None) of
                  Some (JArr ls) \<Rightarrow> map (as_line w) ls
                | _ \<Rightarrow> [])))"

text \<open>
  The loop over the lines. \<open>line.trim()\<close> on a line that is not a string throws, outside
  the inner \<open>try\<close>, and ends the loop.
\<close>

fun activity_events :: "world \<Rightarrow> json list \<Rightarrow> js_error + TimelineEvent list" where
  "activity_events w [] = Inr []"
| "activity_events w (JStr line # rest) =
     (case activity_events w rest of
        Inl e \<Rightarrow> Inl e
      | Inr evs \<Rightarrow> Inr (activity_line w line @ evs))"
| "activity_events w (x # rest) = Inl TypeError"

definition activity_error_message :: "js_error \<Rightarrow> jstring" where
  "activity_error_message err = (if err_message err \<noteq> [] then err_message err else js ''activity failed'')"

text \<open>
  The lines the handler classifies, with the calls made to get them: the plugin's lines,
  or the lines of the command's output when the plugin gave none.
\<close>

definition activity_lines :: "world \<Rightarrow> json list \<times> io_call list" where
  "activity_lines w =
     (let data = (case fetchActivityFromPlugin w 200 of Inr d \<Rightarrow> d | Inl e \<Rightarrow> JNull);
          from_plugin = plugin_lines w data
      in if from_plugin = []
         then (map JStr (filter (\<lambda>l. l \<noteq> [])
                 (split_lines (strip_ansi
                    (stdout_of (exec w (js ''openclaw logs --json --limit 100'')))))),
               [Fetch (js ''/clawscope/activity?limit=200''),
                Exec (js ''openclaw logs --json --limit 100'')])
         else (from_plugin, [Fetch (js ''/clawscope/activity?limit=200'')]))"

definition activity_handler :: "world \<Rightarrow> response \<times> io_call list" where
  "activity_handler w =
     (let (lines, calls) = activity_lines w
      in case activity_events w lines of
           Inr events \<Rightarrow> (json_response 200 (BodyEvents (rev (slice_last 30 events))), calls)
         | Inl err \<Rightarrow> (json_response 500 (BodyError (activity_error_message err)), calls))"

subsection \<open>Settings\<close>

text \<open>
  The outcome of a request: a response, or an exception that no handler of the request
  catches.
\<close>

datatype outcome = Responded response | Uncaught js_error

text \<open>\<open>saveLocalSettings(data)\<close>: the settings file holds the pretty-printed data.\<close>

definition saveLocalSettings :: "world \<Rightarrow> json \<Rightarrow> jstring option \<Rightarrow> jstring option" where
  "saveLocalSettings w data file = Some (JSON_stringify w data)"

text \<open>
  The listener that \<open>/settings/save\<close> registers for the \<open>end\<close> event of the request. It
  runs after the handler has returned, with the whole body.
\<close>

definition settings_on_end :: "world \<Rightarrow> jstring \<Rightarrow> jstring option \<Rightarrow> outcome \<times> jstring option" where
  "settings_on_end w body file =
     (case (if body = [] then Inr (JObj []) else JSON_parse w body) of
        Inl e \<Rightarrow> (Uncaught e, file)
      | Inr data \<Rightarrow> (Responded (json_response 200 BodyOk), saveLocalSettings w data file))"

text \<open>
  The \<open>try\<close> block of the handler only registers the two listeners, which cannot throw;
  its \<open>catch\<close> answers 500.
\<close>

definition settings_register :: "js_error + unit" where
  "settings_register = Inr ()"

definition settings_error_message :: "js_error \<Rightarrow> jstring" where
  "settings_error_message err = (if err_message err \<noteq> [] then err_message err else js ''save failed'')"

definition settings_save_handler ::
  "world \<Rightarrow> jstring \<Rightarrow> jstring option \<Rightarrow> outcome \<times> jstring option" where
  "settings_save_handler w body file =
     (case settings_register of
        Inl err \<Rightarrow> (Responded (json_response 500 (BodyError (settings_error_message err))), file)
      | Inr u \<Rightarrow> settings_on_end w body file)"

section \<open>The tool server (mcp-server.ts)\<close>

text \<open>The chain of rules of \<open>clawscope_get_activity\<close>; its events carry no \<open>id\<close>.\<close>

definition mcp_event :: "logline \<Rightarrow> jstring \<Rightarrow> jstring \<Rightarrow> jstring \<Rightarrow> TimelineEvent" where
  "mcp_event parsed kind summary level =
     \<lparr> ev_id = None, ev_ts = ll_time parsed, ev_kind = kind, ev_summary = summary,
       ev_level = Some level, ev_details = None \<rparr>"

definition mcp_classify :: "logline \<Rightarrow> TimelineEvent list" where
  "mcp_classify parsed =
     (let subsystem = or_default (ll_subsystem parsed) [];
          message = or_default (ll_message parsed) [];
          level = or_default (ll_level parsed) (js ''debug'')
      in if subsystem = js ''agent/embedded'' \<and> includes_str message (js ''tool '') then
           (case (toolMatch message, actionMatch message) of
              (Some tool, Some action) \<Rightarrow>
                [mcp_event parsed (js ''tool'') (tool_summary action tool) level]
            | _ \<Rightarrow> [])
         else if subsystem = js ''diagnostic'' \<and> includes_str message (js ''session state'') then
           [mcp_event parsed (js ''session'') (take 100 message) level]
         else if subsystem = js ''cron'' \<or> includes_str message (js ''cron'') then
           [mcp_event parsed (js ''cron'') (take 100 message) level]
         else if (level = js ''warn'' \<or> level = js ''error'') \<and> \<not> includes_str message benign then
           [mcp_event parsed (js ''alert'') (take 150 message) level]
         else [])"

definition mcp_entry :: "logline \<Rightarrow> TimelineEvent list" where
  "mcp_entry parsed = (if ll_type parsed \<noteq> Some (js ''log'') then [] else mcp_classify parsed)"

definition mcp_line :: "world \<Rightarrow> jstring \<Rightarrow> TimelineEvent list" where
  "mcp_line w line = (case parse_log w line of Inl e \<Rightarrow> [] | Inr parsed \<Rightarrow> mcp_entry parsed)"

text \<open>\<open>runOpenclaw(args)\<close>\<close>

definition runOpenclaw :: "world \<Rightarrow> jstring \<Rightarrow> js_error + jstring" where
  "runOpenclaw w args =
     (case exec w (js ''openclaw '' @ args) of Inl e \<Rightarrow> Inl e | Inr stdout \<Rightarrow> Inr (strip_ansi stdout))"

text \<open>The tool \<open>clawscope_get_activity\<close>: the events, or the message of the error object.\<close>

definition clawscope_get_activity :: "world \<Rightarrow> int option \<Rightarrow> jstring + TimelineEvent list" where
  "clawscope_get_activity w limit_param =
     (let limit = (case limit_param of Some n \<Rightarrow> n | None \<Rightarrow> 50)
      in case runOpenclaw w (js ''logs --json --limit '' @ show_int limit) of
           Inl e \<Rightarrow> Inl (err_message e)
         | Inr output \<Rightarrow>
             (let lines = filter (\<lambda>l. starts_with (trim l) (js ''{'')) (split_lines output);
                  events = concat (map (mcp_line w) lines)
              in Inr (slice_to limit events)))"

section \<open>The second front-end server (frontend-v2.ts) and its activity backend\<close>


text \<open>
  The handlers are written against the interface \<open>ActivityBackend\<close>, whose call may
  reject; the in-memory backend never does.
\<close>

type_synonym activity_backend = "jstring option \<Rightarrow> int option \<Rightarrow> js_error + ActivityEvent list"


definition activity_v2_handler :: "activity_backend \<Rightarrow> response" where
  "activity_v2_handler backend =
     (case backend None (Some 20) of
        Inr activity \<Rightarrow> json_response 200 (BodyActivity activity)
      | Inl e \<Rightarrow> json_response 200 (BodyActivity []))"

text \<open>
  What the aggregator reads: the two JSON files (\<open>None\<close> when \<open>readJsonFile\<close> returns
  \<open>null\<close>), the backend, the clock, \<open>Date.prototype.toISOString\<close> (which throws on an
  invalid date) and the successive results of \<open>Math.random().toString()\<close>.
\<close>

datatype sessions_file = SessArray "session list" | SessObject "session list option"

record world2 =
  read_sessions :: "sessions_file option"
  read_jobs :: "job list option option"
  backend :: activity_backend
  now_ms :: int
  toISOString :: "int \<Rightarrow> js_error + jstring"
  random_string :: "nat \<Rightarrow> jstring"
  date_time :: "jstring option \<Rightarrow> int option"








section \<open>The timeline page's script (frontend.ts, loadTimeline)\<close>






section \<open>Readers and sample inputs\<close>


definition body_events :: "response \<Rightarrow> TimelineEvent list" where
  "body_events r = (case resp_body r of BodyEvents evs \<Rightarrow> evs | _ \<Rightarrow> [])"



text \<open>The configuration of \<open>new OfflineSqliteSearchBackend()\<close> for a database path.\<close>

definition default_cfg :: "jstring \<Rightarrow> cfg" where
  "default_cfg p =
     \<lparr> dbPath = p, defaultMode = hybrid, defaultTopK = 20, defaultCandidates = 80,
       semanticWeight = 7 / 10, ollamaBaseUrl = js ''http://127.0.0.1:11434'',
       embeddingModel = js ''bge-m3'', ollamaTimeoutMs = 3000 \<rparr>"

definition sample_item :: "int \<Rightarrow> jstring \<Rightarrow> raw_item" where
  "sample_item n t =
     \<lparr> item_id = IdNum n, item_text = Some t, item_source = None, item_title = None,
       item_created_at = None, item_tags = None, item_source_id = None \<rparr>"

definition sample_result :: "int \<Rightarrow> jstring \<Rightarrow> engine_result" where
  "sample_result n t =
     \<lparr> r_item = None, r_self = sample_item n t, r_score = Some 1,
       r_lexicalScore = None, r_semanticScore = None \<rparr>"

text \<open>An engine that opens and answers every query with the given results.\<close>

definition sample_engine :: "engine_result list \<Rightarrow> unit engine" where
  "sample_engine rs =
     \<lparr> openDb = (\<lambda>p. Inr ()), initSchema = (\<lambda>d. Inr ()),
       searchItems = (\<lambda>d q n. Inr \<lparr> results = Some rs, escapedQuery = q \<rparr>),
       hybridSearch = (\<lambda>d m q opts. Inr rs) \<rparr>"

definition sample_request :: "jstring \<Rightarrow> SearchMode \<Rightarrow> SearchRequest" where
  "sample_request q m = \<lparr> req_query = q, req_mode = Some m, req_limit = None, req_k = None \<rparr>"

definition refused :: js_error where
  "refused = \<lparr> err_message = js ''fetch failed'' \<rparr>"

definition SyntaxError :: js_error where
  "SyntaxError = \<lparr> err_message = js ''Unexpected end of JSON input'' \<rparr>"

text \<open>
  A world in which the companion service is unreachable, every command fails and no
  text parses.
\<close>

definition offline_world :: world where
  "offline_world =
     \<lparr> fetch_sessions = Inl refused, fetch_cron = Inl refused,
       fetch_activity = (\<lambda>n. Inl refused),
       cpExec = (\<lambda>cmd. \<lparr> cb_err = Some refused, cb_stdout = [], cb_stderr = [] \<rparr>),
       JSON_parse = (\<lambda>s. Inl SyntaxError),
       JSON_stringify = (\<lambda>v. []),
       parse_cron = (\<lambda>s. Inl SyntaxError),
       parse_log = (\<lambda>s. Inl SyntaxError),
       Date_getTime = (\<lambda>t. None) \<rparr>"

definition ok_response :: "'a \<Rightarrow> js_error + 'a http_response" where
  "ok_response v = Inr \<lparr> resp_ok = True, resp_status = 200, resp_json = Inr v \<rparr>"

definition sample_logline :: "jstring option \<Rightarrow> jstring \<Rightarrow> jstring \<Rightarrow> jstring \<Rightarrow> logline" where
  "sample_logline ty subsystem message level =
     \<lparr> ll_type = ty, ll_time = Some (js ''2026-01-01T08:00:00.000Z''),
       ll_subsystem = Some subsystem, ll_message = Some message, ll_level = Some level \<rparr>"






text \<open>A world whose plugin answers with 31 lines, each parsing to the same cron entry.\<close>

definition busy_world :: world where
  "busy_world =
     offline_world
       \<lparr> fetch_activity := (\<lambda>n. ok_response (JArr (replicate 31 (JStr (js ''{}''))))),
         parse_log := (\<lambda>s. Inr (sample_logline (Some (js ''log'')) (js ''cron'')
                                   (js ''cron job X ran'') (js ''info''))) \<rparr>"

text \<open>
  The tests that decide which branch of a classifier's chain an entry enters, as the
  sources write them.
\<close>

definition tool_branch :: "logline \<Rightarrow> bool" where
  "tool_branch p \<longleftrightarrow>
     or_default (ll_subsystem p) [] = js ''agent/embedded'' \<and>
     includes_str (or_default (ll_message p) []) (js ''tool '')"

definition session_branch :: "logline \<Rightarrow> bool" where
  "session_branch p \<longleftrightarrow>
     or_default (ll_subsystem p) [] = js ''diagnostic'' \<and>
     includes_str (or_default (ll_message p) []) (js ''session state'')"

definition memory_branch :: "logline \<Rightarrow> bool" where
  "memory_branch p \<longleftrightarrow>
     or_default (ll_subsystem p) [] = js ''memory'' \<or>
     includes_str (or_default (ll_message p) []) (js ''memory'') \<or>
     includes_str (or_default (ll_message p) []) (js ''Memory'')"

definition cron_branch :: "logline \<Rightarrow> bool" where
  "cron_branch p \<longleftrightarrow>
     or_default (ll_subsystem p) [] = js ''cron'' \<or>
     includes_str (or_default (ll_message p) []) (js ''cron'')"

definition alert_branch :: "logline \<Rightarrow> bool" where
  "alert_branch p \<longleftrightarrow>
     (or_default (ll_level p) (js ''debug'') = js ''warn'' \<or>
      or_default (ll_level p) (js ''debug'') = js ''error'') \<and>
     \<not> includes_str (or_default (ll_message p) []) benign"

text \<open>
  A world whose plugin is unreachable and whose command fails after printing a line that
  parses to a cron entry.
\<close>

definition noisy_world :: world where
  "noisy_world =
     offline_world
       \<lparr> cpExec := (\<lambda>cmd. \<lparr> cb_err = Some refused, cb_stdout = js ''{}'', cb_stderr = [] \<rparr>),
         parse_log := (\<lambda>s. Inr (sample_logline (Some (js ''log'')) (js ''cron'')
                                   (js ''cron job X ran'') (js ''info''))) \<rparr>"

text \<open>A backend whose call rejects, a clock that reads 100, and one that reads 0.\<close>

definition rejecting_backend :: activity_backend where
  "rejecting_backend = (\<lambda>since limit. Inl refused)"

definition clock_world :: world where
  "clock_world = offline_world \<lparr> Date_getTime := (\<lambda>t. Some 100) \<rparr>"


text \<open>A world whose plugin answers the session request with the given value.\<close>

definition answering_world :: "json \<Rightarrow> world" where
  "answering_world v = offline_world \<lparr> fetch_sessions := ok_response v \<rparr>"

section \<open>Properties\<close>

subsection \<open>Snippets and the search adapter\<close>











lemma dropWhile_all: "\<forall>c\<in>set s. P c \<Longrightarrow> dropWhile P s = []"
  by (induction s) auto

lemma trim_all_space: "\<forall>c\<in>set s. is_space c \<Longrightarrow> trim s = []"
  unfolding trim_def using dropWhile_all[of s is_space]
  by (simp del: dropWhile_eq_Nil_conv)










text \<open>
  Claim C3. When the query is empty or all of its characters are whitespace, \<open>search\<close>
  returns the empty list and makes no call to the engine: the list of calls is empty, so
  neither \<open>openDb\<close> nor \<open>searchItems\<close> nor \<open>hybridSearch\<close> ran.
\<close>

theorem search_empty_query:
  "\<forall>ch\<in>set (req_query req). is_space ch \<Longrightarrow> search eng c req = (Inr [], [])"
  by (simp add: search_def Let_def trim_all_space)

text \<open>A query of two blanks in lexical mode, and the empty query in hybrid mode.\<close>

theorem search_empty_query_witness:
  "search (sample_engine [sample_result 1 (js ''x'')]) (default_cfg (js ''db'')) (sample_request (js ''  '') lexical) = (Inr [], []) \<and>
   search (sample_engine [sample_result 1 (js ''x'')]) (default_cfg (js ''db'')) (sample_request [] hybrid) = (Inr [], [])"
proof -
  have a: "\<forall>ch\<in>set (req_query (sample_request (js ''  '') lexical)). is_space ch"
    by (simp add: sample_request_def js_def is_space_def)
  have b: "\<forall>ch\<in>set (req_query (sample_request [] hybrid)). is_space ch"
    by (simp add: sample_request_def)
  from search_empty_query[OF a, of "sample_engine [sample_result 1 (js ''x'')]" "default_cfg (js ''db'')"]
    search_empty_query[OF b, of "sample_engine [sample_result 1 (js ''x'')]" "default_cfg (js ''db'')"]
  show ?thesis by simp
qed






subsection \<open>Schedules\<close>



subsection \<open>Saving the settings\<close>

text \<open>
  Whenever the body is not empty and does not parse, the exception of \<open>JSON.parse\<close> is
  thrown inside the \<open>end\<close> listener, after the \<open>try\<close> block of the handler has been
  left: no response is written and the settings file is unchanged.
\<close>

lemma settings_save_unparsable:
  "body \<noteq> [] \<Longrightarrow> JSON_parse w body = Inl e \<Longrightarrow>
   settings_save_handler w body file = (Uncaught e, file)"
  by (simp add: settings_save_handler_def settings_register_def settings_on_end_def)

text \<open>
  Claim C5 says that a body that is not valid JSON is answered with status 500 and an
  error object. The code does not do that: on the body \<open>{\<close>, which no JSON parser
  accepts, the request ends with the uncaught \<open>SyntaxError\<close> and no response. The
  settings file keeps its content.
\<close>

theorem settings_save_invalid_json:
  "settings_save_handler offline_world (js ''{'') (Some (js ''{}'')) =
     (Uncaught SyntaxError, Some (js ''{}''))"
  by (simp add: settings_save_handler_def settings_register_def settings_on_end_def
      offline_world_def js_def)


subsection \<open>The session cache\<close>

lemma sessions_cache_served:
  "truthy (lastSessionsJson st) \<Longrightarrow> now - lastSessionsAt st < SESSIONS_TTL_MS \<Longrightarrow>
   sessions_handler w now st = (json_response 200 (BodyJson (lastSessionsJson st)), st, [])"
  by (simp add: sessions_handler_def)

lemma sessions_cache_written:
  "snd (sessions_handler w now st) = (st', calls) \<Longrightarrow>
   st' = st \<or>
   (\<exists>data. (fetchSessionsFromPlugin w = Inr data \<or> sessions_from_cli w = Inr data) \<and>
      st' = \<lparr> lastSessionsJson = data, lastSessionsAt = now \<rparr> \<and>
      fst (sessions_handler w now st) = json_response 200 (BodyJson data))"
  by (auto simp: sessions_handler_def split: if_splits sum.splits)

text \<open>
  Claim C9 as stated fails for a cached value that JavaScript counts as false. The
  handler tests \<open>lastSessionsJson &&\<close> before the age of the cache, so when the plugin
  answers a request at time 1000 with the JSON value 0, the value is stored, and the
  request at time 2000, one second later, fetches from the plugin again.
\<close>

theorem sessions_cache_falsy_counterexample:
  "fst (snd (sessions_handler (answering_world (JNum 0)) 1000 initial_cache)) =
     \<lparr> lastSessionsJson = JNum 0, lastSessionsAt = 1000 \<rparr> \<and>
   snd (snd (sessions_handler (answering_world (JNum 0)) 2000
              \<lparr> lastSessionsJson = JNum 0, lastSessionsAt = 1000 \<rparr>)) =
     [Fetch (js ''/clawscope/sessions'')]"
  by (simp add: sessions_handler_def answering_world_def offline_world_def ok_response_def
      initial_cache_def fetchSessionsFromPlugin_def plugin_get_def SESSIONS_TTL_MS_def)

text \<open>
  Claim C9, amended. When the cache holds a value that is not false in JavaScript (any
  array or object, as a session list is) and the request comes less than 15 minutes
  after the cache was written, the handler answers 200 with the cached value, leaves
  the cache as it is and calls neither the companion service nor the command line. In
  particular a request within 15 minutes of a request whose plugin fetch succeeded with
  such a value is served from the cache. After any request the cache is either
  unchanged, or it holds the data of this request's successful plugin fetch or
  successful command-line fallback, stamped with the time of this request, and that data
  is the response.
\<close>

theorem sessions_cache_ttl:
  "(truthy (lastSessionsJson st) \<and> now - lastSessionsAt st < 15 * 60 * 1000 \<longrightarrow>
      sessions_handler w now st = (json_response 200 (BodyJson (lastSessionsJson st)), st, [])) \<and>
   (fetchSessionsFromPlugin w = Inr data \<and> truthy data \<and>
    \<not> (truthy (lastSessionsJson st) \<and> t0 - lastSessionsAt st < 15 * 60 * 1000) \<and>
    t1 - t0 < 15 * 60 * 1000 \<longrightarrow>
      sessions_handler w' t1 (fst (snd (sessions_handler w t0 st))) =
        (json_response 200 (BodyJson data), \<lparr> lastSessionsJson = data, lastSessionsAt = t0 \<rparr>, [])) \<and>
   (fst (snd (sessions_handler w now st)) = st \<or>
    (\<exists>d. (fetchSessionsFromPlugin w = Inr d \<or> sessions_from_cli w = Inr d) \<and>
       fst (snd (sessions_handler w now st)) = \<lparr> lastSessionsJson = d, lastSessionsAt = now \<rparr> \<and>
       fst (sessions_handler w now st) = json_response 200 (BodyJson d)))"
proof -
  have a: "truthy (lastSessionsJson st) \<and> now - lastSessionsAt st < 15 * 60 * 1000 \<longrightarrow>
      sessions_handler w now st = (json_response 200 (BodyJson (lastSessionsJson st)), st, [])"
    using sessions_cache_served[of st now w] by (simp add: SESSIONS_TTL_MS_def)
  have b: "fetchSessionsFromPlugin w = Inr data \<and> truthy data \<and>
    \<not> (truthy (lastSessionsJson st) \<and> t0 - lastSessionsAt st < 15 * 60 * 1000) \<and>
    t1 - t0 < 15 * 60 * 1000 \<longrightarrow>
      sessions_handler w' t1 (fst (snd (sessions_handler w t0 st))) =
        (json_response 200 (BodyJson data), \<lparr> lastSessionsJson = data, lastSessionsAt = t0 \<rparr>, [])"
  proof (intro impI, elim conjE)
    assume f: "fetchSessionsFromPlugin w = Inr data" and t: "truthy data"
      and miss: "\<not> (truthy (lastSessionsJson st) \<and> t0 - lastSessionsAt st < 15 * 60 * 1000)"
      and near: "t1 - t0 < 15 * 60 * 1000"
    have "fst (snd (sessions_handler w t0 st)) = \<lparr> lastSessionsJson = data, lastSessionsAt = t0 \<rparr>"
      using f miss by (auto simp: sessions_handler_def SESSIONS_TTL_MS_def)
    then show "sessions_handler w' t1 (fst (snd (sessions_handler w t0 st))) =
        (json_response 200 (BodyJson data), \<lparr> lastSessionsJson = data, lastSessionsAt = t0 \<rparr>, [])"
      using t near sessions_cache_served[of "\<lparr> lastSessionsJson = data, lastSessionsAt = t0 \<rparr>" t1 w']
      by (simp add: SESSIONS_TTL_MS_def)
  qed
  have c: "fst (snd (sessions_handler w now st)) = st \<or>
    (\<exists>d. (fetchSessionsFromPlugin w = Inr d \<or> sessions_from_cli w = Inr d) \<and>
       fst (snd (sessions_handler w now st)) = \<lparr> lastSessionsJson = d, lastSessionsAt = now \<rparr> \<and>
       fst (sessions_handler w now st) = json_response 200 (BodyJson d))"
    using sessions_cache_written[of w now st "fst (snd (sessions_handler w now st))" "snd (snd (sessions_handler w now st))"]
    by simp
  from a b c show ?thesis by blast
qed

text \<open>
  A cache holding the empty session list, written one second before the request; and
  the same cache as the result of a first request that the plugin answered.
\<close>

theorem sessions_cache_ttl_witness:
  "sessions_handler offline_world 2000 \<lparr> lastSessionsJson = JArr [], lastSessionsAt = 1000 \<rparr> =
     (json_response 200 (BodyJson (JArr [])), \<lparr> lastSessionsJson = JArr [], lastSessionsAt = 1000 \<rparr>, []) \<and>
   sessions_handler offline_world 2000
     (fst (snd (sessions_handler (answering_world (JArr [])) 1000 initial_cache))) =
     (json_response 200 (BodyJson (JArr [])), \<lparr> lastSessionsJson = JArr [], lastSessionsAt = 1000 \<rparr>, [])"
proof -
  let ?st = "\<lparr> lastSessionsJson = JArr [], lastSessionsAt = 1000 \<rparr>"
  let ?w = "answering_world (JArr [])"
  have h1: "truthy (lastSessionsJson ?st) \<and> 2000 - lastSessionsAt ?st < 15 * 60 * 1000"
    by simp
  have h2: "fetchSessionsFromPlugin ?w = Inr (JArr []) \<and> truthy (JArr []) \<and>
    \<not> (truthy (lastSessionsJson initial_cache) \<and> 1000 - lastSessionsAt initial_cache < 15 * 60 * 1000) \<and>
    (2000::int) - 1000 < 15 * 60 * 1000"
    by (simp add: fetchSessionsFromPlugin_def plugin_get_def ok_response_def offline_world_def
        answering_world_def initial_cache_def)
  have a: "sessions_handler offline_world 2000 ?st = (json_response 200 (BodyJson (JArr [])), ?st, [])"
    using sessions_cache_ttl[where st = ?st and now = 2000 and w = offline_world and data = JNull
        and ?t0.0 = 0 and ?t1.0 = 0 and w' = offline_world] h1
    by simp
  have b: "sessions_handler offline_world 2000 (fst (snd (sessions_handler ?w 1000 initial_cache))) =
     (json_response 200 (BodyJson (JArr [])), ?st, [])"
    using sessions_cache_ttl[where st = initial_cache and now = 0 and w = ?w and data = "JArr []"
        and ?t0.0 = 1000 and ?t1.0 = 2000 and w' = offline_world] h2
    by blast
  from a b show ?thesis by simp
qed


subsection \<open>Both sources failing, and the size of the activity feed\<close>

lemma activity_events_strings:
  "activity_events w (map JStr ls) = Inr (concat (map (activity_line w) ls))"
  by (induction ls) auto

lemma plugin_lines_null: "plugin_lines w JNull = []"
  by (simp add: plugin_lines_def)

lemma activity_lines_plugin_down:
  "fetchActivityFromPlugin w 200 = Inl x \<Longrightarrow>
   activity_lines w =
     (map JStr (filter (\<lambda>l. l \<noteq> [])
        (split_lines (strip_ansi (stdout_of (exec w (js ''openclaw logs --json --limit 100'')))))),
      [Fetch (js ''/clawscope/activity?limit=200''), Exec (js ''openclaw logs --json --limit 100'')])"
  by (simp add: activity_lines_def plugin_lines_null)

lemma length_slice_last: "length (slice_last n xs) \<le> n"
  by (simp add: slice_last_def)

lemma activity_handler_cases:
  "(\<exists>events. activity_events w (fst (activity_lines w)) = Inr events \<and>
      fst (activity_handler w) = json_response 200 (BodyEvents (rev (slice_last 30 events)))) \<or>
   (\<exists>err. activity_events w (fst (activity_lines w)) = Inl err \<and>
      fst (activity_handler w) = json_response 500 (BodyError (activity_error_message err)))"
  by (cases "activity_events w (fst (activity_lines w))")
     (auto simp: activity_handler_def split: prod.splits)

lemma activity_handler_plugin_down:
  assumes "fetchActivityFromPlugin w 200 = Inl x"
  shows "\<exists>evs. fst (activity_handler w) = json_response 200 (BodyEvents evs) \<and> length evs \<le> 30"
proof -
  obtain ls where "fst (activity_lines w) = map JStr ls"
    using activity_lines_plugin_down[OF assms] by simp
  then have "activity_events w (fst (activity_lines w)) = Inr (concat (map (activity_line w) ls))"
    by (simp add: activity_events_strings)
  with activity_handler_cases[of w] show ?thesis
    by (auto simp: length_slice_last)
qed

lemma activity_handler_silent:
  assumes "fetchActivityFromPlugin w 200 = Inl x"
    and "exec w (js ''openclaw logs --json --limit 100'') = Inl y"
  shows "activity_handler w =
           (json_response 200 (BodyEvents []),
            [Fetch (js ''/clawscope/activity?limit=200''),
             Exec (js ''openclaw logs --json --limit 100'')])"
proof -
  have "activity_lines w =
     ([], [Fetch (js ''/clawscope/activity?limit=200''), Exec (js ''openclaw logs --json --limit 100'')])"
    using activity_lines_plugin_down[OF assms(1)] assms(2)
    by (simp add: split_lines_def stdout_of_def)
  then show ?thesis
    by (simp add: activity_handler_def slice_last_def)
qed

text \<open>
  Claim C4 as stated fails for \<open>/tasks\<close>: when the plugin is unreachable and the command
  fails, the handler answers with status 500 and the error message, not with an empty
  list.
\<close>

theorem tasks_both_fail_counterexample:
  "fst (tasks_handler offline_world) = json_response 500 (BodyError (js ''fetch failed''))"
  by (simp add: tasks_handler_def fetchTasksFromPlugin_def plugin_get_def tasks_from_cli_def
      exec_def promisifyExec_def offline_world_def tasks_error_message_def refused_def js_def)

text \<open>
  Claim C4, amended. When the plugin fetch and the fallback both fail: \<open>/sessions\<close>
  (with no fresh cache to serve) answers 200 with the empty list and leaves the cache
  unchanged; \<open>/tasks\<close> answers 500 with a non-empty error message, which the page shows
  as an error; \<open>/activity\<close> of the main server answers 200 with the empty list, whatever
  the failed command had printed; \<open>/activity\<close> of frontend-v2 answers 200 with the empty
  list when its backend rejects.
\<close>

theorem both_sources_fail:
  "(fetchSessionsFromPlugin w = Inl err \<and> sessions_from_cli w = Inl e \<and>
    \<not> (truthy (lastSessionsJson st) \<and> now - lastSessionsAt st < 15 * 60 * 1000) \<longrightarrow>
      sessions_handler w now st =
        (json_response 200 (BodyJson (JArr [])), st,
         [Fetch (js ''/clawscope/sessions''), Exec (js ''openclaw sessions --json'')])) \<and>
   (fetchTasksFromPlugin w = Inl err \<and> tasks_from_cli w = Inl e \<longrightarrow>
      fst (tasks_handler w) = json_response 500 (BodyError (tasks_error_message e err)) \<and>
      tasks_error_message e err \<noteq> []) \<and>
   (fetchActivityFromPlugin w 200 = Inl err \<and>
    exec w (js ''openclaw logs --json --limit 100'') = Inl e \<longrightarrow>
      activity_handler w =
        (json_response 200 (BodyEvents []),
         [Fetch (js ''/clawscope/activity?limit=200''),
          Exec (js ''openclaw logs --json --limit 100'')])) \<and>
   (b None (Some 20) = Inl err \<longrightarrow> activity_v2_handler b = json_response 200 (BodyActivity []))"
proof -
  have s: "fetchSessionsFromPlugin w = Inl err \<and> sessions_from_cli w = Inl e \<and>
    \<not> (truthy (lastSessionsJson st) \<and> now - lastSessionsAt st < 15 * 60 * 1000) \<longrightarrow>
      sessions_handler w now st =
        (json_response 200 (BodyJson (JArr [])), st,
         [Fetch (js ''/clawscope/sessions''), Exec (js ''openclaw sessions --json'')])"
    by (simp add: sessions_handler_def SESSIONS_TTL_MS_def)
  have t: "fetchTasksFromPlugin w = Inl err \<and> tasks_from_cli w = Inl e \<longrightarrow>
      fst (tasks_handler w) = json_response 500 (BodyError (tasks_error_message e err)) \<and>
      tasks_error_message e err \<noteq> []"
    by (simp add: tasks_handler_def tasks_error_message_def js_def)
  have a: "fetchActivityFromPlugin w 200 = Inl err \<and>
    exec w (js ''openclaw logs --json --limit 100'') = Inl e \<longrightarrow>
      activity_handler w =
        (json_response 200 (BodyEvents []),
         [Fetch (js ''/clawscope/activity?limit=200''),
          Exec (js ''openclaw logs --json --limit 100'')])"
    using activity_handler_silent[of w err e] by blast
  have v: "b None (Some 20) = Inl err \<longrightarrow> activity_v2_handler b = json_response 200 (BodyActivity [])"
    by (simp add: activity_v2_handler_def)
  from s t a v show ?thesis by blast
qed

text \<open>The world in which nothing is reachable, and a backend that rejects.\<close>

theorem both_sources_fail_witness:
  "sessions_handler offline_world 5 initial_cache =
     (json_response 200 (BodyJson (JArr [])), initial_cache,
      [Fetch (js ''/clawscope/sessions''), Exec (js ''openclaw sessions --json'')]) \<and>
   fst (tasks_handler offline_world) =
     json_response 500 (BodyError (tasks_error_message refused refused)) \<and>
   fst (activity_handler offline_world) = json_response 200 (BodyEvents []) \<and>
   fst (activity_handler noisy_world) = json_response 200 (BodyEvents []) \<and>
   activity_v2_handler rejecting_backend = json_response 200 (BodyActivity [])"
proof -
  have x: "exec offline_world cmd = Inl refused" for cmd
    by (simp add: exec_def promisifyExec_def offline_world_def)
  have h1: "fetchSessionsFromPlugin offline_world = Inl refused \<and>
      sessions_from_cli offline_world = Inl refused \<and>
      \<not> (truthy (lastSessionsJson initial_cache) \<and> 5 - lastSessionsAt initial_cache < 15 * 60 * 1000)"
    by (simp add: fetchSessionsFromPlugin_def plugin_get_def sessions_from_cli_def x)
       (simp add: offline_world_def initial_cache_def)
  have h2: "fetchTasksFromPlugin offline_world = Inl refused \<and> tasks_from_cli offline_world = Inl refused"
    by (simp add: fetchTasksFromPlugin_def plugin_get_def tasks_from_cli_def x)
       (simp add: offline_world_def)
  have h3: "fetchActivityFromPlugin offline_world 200 = Inl refused \<and>
      exec offline_world (js ''openclaw logs --json --limit 100'') = Inl refused"
    by (simp add: fetchActivityFromPlugin_def plugin_get_def x) (simp add: offline_world_def)
  have h4: "fetchActivityFromPlugin noisy_world 200 = Inl refused \<and>
      exec noisy_world (js ''openclaw logs --json --limit 100'') = Inl refused"
    by (simp add: fetchActivityFromPlugin_def plugin_get_def exec_def promisifyExec_def
        noisy_world_def offline_world_def)
  have h5: "rejecting_backend None (Some 20) = Inl refused"
    by (simp add: rejecting_backend_def)
  note T = both_sources_fail[where w = offline_world and err = refused and e = refused
      and st = initial_cache and now = 5 and b = rejecting_backend]
  note N = both_sources_fail[where w = noisy_world and err = refused and e = refused
      and st = initial_cache and now = 5 and b = rejecting_backend]
  have s: "sessions_handler offline_world 5 initial_cache =
     (json_response 200 (BodyJson (JArr [])), initial_cache,
      [Fetch (js ''/clawscope/sessions''), Exec (js ''openclaw sessions --json'')])"
    using T[THEN conjunct1] h1 by blast
  have t: "fst (tasks_handler offline_world) =
     json_response 500 (BodyError (tasks_error_message refused refused))"
    using T[THEN conjunct2, THEN conjunct1] h2 by blast
  have a: "fst (activity_handler offline_world) = json_response 200 (BodyEvents [])"
    using T[THEN conjunct2, THEN conjunct2, THEN conjunct1] h3 by simp
  have n: "fst (activity_handler noisy_world) = json_response 200 (BodyEvents [])"
    using N[THEN conjunct2, THEN conjunct2, THEN conjunct1] h4 by simp
  have v: "activity_v2_handler rejecting_backend = json_response 200 (BodyActivity [])"
    using T[THEN conjunct2, THEN conjunct2, THEN conjunct2] h5 by blast
  from s t a n v show ?thesis by blast
qed

text \<open>
  Claim C10. The \<open>/activity\<close> handler of the main server answers either 200 with at most
  30 events or 500 with an error message. When the loop over the lines ends normally
  with the events \<open>events\<close>, the response is the last 30 of them, reversed. When the
  plugin fetch fails, whatever the command does, the response is 200 with a list of at
  most 30 events. The only calls are the plugin request with \<open>limit=200\<close> and the command
  with \<open>--limit 100\<close>.
\<close>

theorem activity_at_most_30:
  "((\<exists>evs. fst (activity_handler w) = json_response 200 (BodyEvents evs) \<and> length evs \<le> 30) \<or>
    (\<exists>m. fst (activity_handler w) = json_response 500 (BodyError m))) \<and>
   (activity_events w (fst (activity_lines w)) = Inr events \<longrightarrow>
      fst (activity_handler w) =
        json_response 200 (BodyEvents (rev (drop (length events - 30) events)))) \<and>
   (fetchActivityFromPlugin w 200 = Inl err \<longrightarrow>
      (\<exists>evs. fst (activity_handler w) = json_response 200 (BodyEvents evs) \<and> length evs \<le> 30)) \<and>
   set (snd (activity_handler w)) \<subseteq>
     {Fetch (js ''/clawscope/activity?limit=200''), Exec (js ''openclaw logs --json --limit 100'')}"
proof -
  have a: "(\<exists>evs. fst (activity_handler w) = json_response 200 (BodyEvents evs) \<and> length evs \<le> 30) \<or>
    (\<exists>m. fst (activity_handler w) = json_response 500 (BodyError m))"
    using activity_handler_cases[of w] by (auto simp: length_slice_last)
  have b: "activity_events w (fst (activity_lines w)) = Inr events \<longrightarrow>
      fst (activity_handler w) =
        json_response 200 (BodyEvents (rev (drop (length events - 30) events)))"
    using activity_handler_cases[of w] by (auto simp: slice_last_def)
  have c: "fetchActivityFromPlugin w 200 = Inl err \<longrightarrow>
      (\<exists>evs. fst (activity_handler w) = json_response 200 (BodyEvents evs) \<and> length evs \<le> 30)"
    using activity_handler_plugin_down[of w err] by blast
  have d: "set (snd (activity_handler w)) \<subseteq>
     {Fetch (js ''/clawscope/activity?limit=200''), Exec (js ''openclaw logs --json --limit 100'')}"
    by (auto simp: activity_handler_def activity_lines_def Let_def split: prod.splits sum.splits if_splits)
  from a b c d show ?thesis by blast
qed


text \<open>A plugin that answers with 31 cron lines: 30 events are returned.\<close>

theorem activity_at_most_30_witness:
  "length (body_events (fst (activity_handler busy_world))) = 30"
proof -
  let ?p = "sample_logline (Some (js ''log'')) (js ''cron'') (js ''cron job X ran'') (js ''info'')"
  let ?ev = "log_event ?p (js ''cron'') (js ''cron'') (js ''cron job X ran'') (js ''info'')"
  have l: "fst (activity_lines busy_world) = replicate 31 (JStr (js ''{}''))"
    by (simp add: activity_lines_def busy_world_def fetchActivityFromPlugin_def plugin_get_def
        ok_response_def plugin_lines_def as_line_def offline_world_def)
  have c: "activity_classify ?p = [?ev]"
    by (simp add: activity_classify_def sample_logline_def or_default_def js_def Let_def)
  have e: "activity_line busy_world (js ''{}'') = [?ev]"
    unfolding activity_line_def activity_entry_def c[symmetric]
    by (simp add: busy_world_def offline_world_def sample_logline_def or_default_def trim_def
        js_def is_space_def)
  have r: "\<And>n. activity_events busy_world (replicate n (JStr (js ''{}''))) = Inr (replicate n ?ev)"
  proof -
    fix n show "activity_events busy_world (replicate n (JStr (js ''{}''))) = Inr (replicate n ?ev)"
      by (induction n) (simp_all add: e)
  qed
  have h: "activity_events busy_world (fst (activity_lines busy_world)) = Inr (replicate 31 ?ev)"
    by (simp only: l r)
  from activity_at_most_30[where w = busy_world and events = "replicate 31 ?ev" and err = refused] h
  have "fst (activity_handler busy_world) =
      json_response 200 (BodyEvents (rev (drop (length (replicate 31 ?ev) - 30) (replicate 31 ?ev))))"
    by blast
  then show ?thesis
    by (simp add: body_events_def json_response_def)
qed


subsection \<open>The log-line classifiers\<close>

lemma cron_entry_classified:
  assumes "ll_subsystem p = Some (js ''cron'')" and "ll_message p = Some (js ''cron job X ran'')"
  shows "map ev_kind (timeline_classify p) = [js ''cron'']"
    and "map ev_kind (activity_classify p) = [js ''cron'']"
    and "map ev_kind (mcp_classify p) = [js ''cron'']"
  using assms
  by (simp_all add: timeline_classify_def activity_classify_def mcp_classify_def Let_def
      or_default_def log_event_def mcp_event_def js_def)

lemma alert_entry_classified:
  assumes "\<not> tool_branch p" and "\<not> session_branch p" and "\<not> cron_branch p" and "alert_branch p"
  shows "\<not> memory_branch p \<Longrightarrow> map ev_kind (timeline_classify p) = [js ''alert'']"
    and "map ev_kind (activity_classify p) = [js ''alert'']"
    and "map ev_kind (mcp_classify p) = [js ''alert'']"
  using assms
  by (auto simp: timeline_classify_def activity_classify_def mcp_classify_def Let_def
      tool_branch_def session_branch_def memory_branch_def cron_branch_def alert_branch_def
      log_event_def mcp_event_def)

text \<open>
  Claim C7 as stated fails for a line that carries the three fields and nothing else:
  the loops of \<open>/timeline-data\<close> and of the tool server skip every entry whose \<open>type\<close> is
  not \<open>log\<close>, so the entry with subsystem \<open>cron\<close>, message \<open>cron job X ran\<close> and level
  \<open>info\<close> but no \<open>type\<close> yields no event there.
\<close>

theorem log_line_without_type_counterexample:
  "timeline_entry offline_world None
     \<lparr> ll_type = None, ll_time = None, ll_subsystem = Some (js ''cron''),
       ll_message = Some (js ''cron job X ran''), ll_level = Some (js ''info'') \<rparr> = [] \<and>
   mcp_entry
     \<lparr> ll_type = None, ll_time = None, ll_subsystem = Some (js ''cron''),
       ll_message = Some (js ''cron job X ran''), ll_level = Some (js ''info'') \<rparr> = []"
  by (simp add: timeline_entry_def mcp_entry_def)

text \<open>
  Claim C7, amended. The classifiers are functions of the line. An entry with subsystem
  \<open>cron\<close>, message \<open>cron job X ran\<close> and level \<open>info\<close> yields exactly one event, of kind
  \<open>cron\<close>, when it passes the guards of the loop: type \<open>log\<close> and a time not before
  \<open>since\<close> in \<open>/timeline-data\<close>, type \<open>log\<close> or no type in \<open>/activity\<close>, type \<open>log\<close> in
  the tool server. Under the same guards an entry with level \<open>warn\<close> whose message does
  not contain the version-mismatch text and which enters no earlier branch of the chain
  yields exactly one event, of kind \<open>alert\<close>; the tool and session branches are entered
  on their subsystem and substring tests alone. A line that does not parse yields no
  event in any of the three loops, and a line that parses and starts with a brace is
  classified as its entry.
\<close>

theorem log_classifier_rules:
  "(ll_subsystem p = Some (js ''cron'') \<and> ll_message p = Some (js ''cron job X ran'') \<and>
    ll_level p = Some (js ''info'') \<longrightarrow>
      (ll_type p = Some (js ''log'') \<and> \<not> before (Date_getTime w (ll_time p)) sinceTs \<longrightarrow>
         map ev_kind (timeline_entry w sinceTs p) = [js ''cron'']) \<and>
      (ll_type p = None \<or> ll_type p = Some (js ''log'') \<longrightarrow>
         map ev_kind (activity_entry p) = [js ''cron'']) \<and>
      (ll_type p = Some (js ''log'') \<longrightarrow> map ev_kind (mcp_entry p) = [js ''cron''])) \<and>
   (or_default (ll_level p) (js ''debug'') = js ''warn'' \<and>
    \<not> includes_str (or_default (ll_message p) []) benign \<and>
    \<not> tool_branch p \<and> \<not> session_branch p \<and> \<not> cron_branch p \<longrightarrow>
      (ll_type p = Some (js ''log'') \<and> \<not> before (Date_getTime w (ll_time p)) sinceTs \<and>
       \<not> memory_branch p \<longrightarrow>
         map ev_kind (timeline_entry w sinceTs p) = [js ''alert'']) \<and>
      (ll_type p = None \<or> ll_type p = Some (js ''log'') \<longrightarrow>
         map ev_kind (activity_entry p) = [js ''alert'']) \<and>
      (ll_type p = Some (js ''log'') \<longrightarrow> map ev_kind (mcp_entry p) = [js ''alert''])) \<and>
   (parse_log w line = Inl e \<longrightarrow>
      timeline_line w sinceTs line = [] \<and> activity_line w line = [] \<and> mcp_line w line = []) \<and>
   (parse_log w line = Inr p \<and> trim line \<noteq> [] \<and> starts_with line (js ''{'') \<longrightarrow>
      timeline_line w sinceTs line = timeline_entry w sinceTs p \<and>
      activity_line w line = activity_entry p \<and> mcp_line w line = mcp_entry p)"
proof -
  have ty: "ll_type p = None \<or> ll_type p = Some (js ''log'') \<Longrightarrow> activity_entry p = activity_classify p"
    by (auto simp: activity_entry_def or_default_def)
  have cron: "ll_subsystem p = Some (js ''cron'') \<and> ll_message p = Some (js ''cron job X ran'') \<and>
    ll_level p = Some (js ''info'') \<longrightarrow>
      (ll_type p = Some (js ''log'') \<and> \<not> before (Date_getTime w (ll_time p)) sinceTs \<longrightarrow>
         map ev_kind (timeline_entry w sinceTs p) = [js ''cron'']) \<and>
      (ll_type p = None \<or> ll_type p = Some (js ''log'') \<longrightarrow>
         map ev_kind (activity_entry p) = [js ''cron'']) \<and>
      (ll_type p = Some (js ''log'') \<longrightarrow> map ev_kind (mcp_entry p) = [js ''cron''])"
    using cron_entry_classified[of p] ty
    by (auto simp: timeline_entry_def mcp_entry_def)
  have al: "alert_branch p" if "or_default (ll_level p) (js ''debug'') = js ''warn''"
    and "\<not> includes_str (or_default (ll_message p) []) benign"
    using that by (simp add: alert_branch_def)
  have alert: "or_default (ll_level p) (js ''debug'') = js ''warn'' \<and>
    \<not> includes_str (or_default (ll_message p) []) benign \<and>
    \<not> tool_branch p \<and> \<not> session_branch p \<and> \<not> cron_branch p \<longrightarrow>
      (ll_type p = Some (js ''log'') \<and> \<not> before (Date_getTime w (ll_time p)) sinceTs \<and>
       \<not> memory_branch p \<longrightarrow>
         map ev_kind (timeline_entry w sinceTs p) = [js ''alert'']) \<and>
      (ll_type p = None \<or> ll_type p = Some (js ''log'') \<longrightarrow>
         map ev_kind (activity_entry p) = [js ''alert'']) \<and>
      (ll_type p = Some (js ''log'') \<longrightarrow> map ev_kind (mcp_entry p) = [js ''alert''])"
    using alert_entry_classified[of p] al ty
    by (auto simp: timeline_entry_def mcp_entry_def)
  have bad: "parse_log w line = Inl e \<longrightarrow>
      timeline_line w sinceTs line = [] \<and> activity_line w line = [] \<and> mcp_line w line = []"
    by (simp add: timeline_line_def activity_line_def mcp_line_def)
  have good: "parse_log w line = Inr p \<and> trim line \<noteq> [] \<and> starts_with line (js ''{'') \<longrightarrow>
      timeline_line w sinceTs line = timeline_entry w sinceTs p \<and>
      activity_line w line = activity_entry p \<and> mcp_line w line = mcp_entry p"
    by (simp add: timeline_line_def activity_line_def mcp_line_def)
  from cron alert bad good show ?thesis by blast
qed

text \<open>A cron entry, a warning of the storage subsystem and a line that is not JSON.\<close>

theorem log_classifier_rules_witness:
  "map ev_kind (timeline_entry clock_world (Some 50)
      (sample_logline (Some (js ''log'')) (js ''cron'') (js ''cron job X ran'') (js ''info''))) = [js ''cron''] \<and>
   map ev_kind (activity_entry
      (sample_logline (Some (js ''log'')) (js ''cron'') (js ''cron job X ran'') (js ''info''))) = [js ''cron''] \<and>
   map ev_kind (mcp_entry
      (sample_logline (Some (js ''log'')) (js ''cron'') (js ''cron job X ran'') (js ''info''))) = [js ''cron''] \<and>
   map ev_kind (timeline_entry clock_world (Some 50)
      (sample_logline (Some (js ''log'')) (js ''storage'') (js ''disk almost full'') (js ''warn''))) = [js ''alert''] \<and>
   map ev_kind (activity_entry
      (sample_logline (Some (js ''log'')) (js ''storage'') (js ''disk almost full'') (js ''warn''))) = [js ''alert''] \<and>
   map ev_kind (mcp_entry
      (sample_logline (Some (js ''log'')) (js ''storage'') (js ''disk almost full'') (js ''warn''))) = [js ''alert''] \<and>
   timeline_line clock_world (Some 50) (js ''not json'') = [] \<and>
   activity_line clock_world (js ''not json'') = [] \<and>
   mcp_line clock_world (js ''not json'') = []"
proof -
  let ?w = "clock_world"
  let ?c = "sample_logline (Some (js ''log'')) (js ''cron'') (js ''cron job X ran'') (js ''info'')"
  let ?a = "sample_logline (Some (js ''log'')) (js ''storage'') (js ''disk almost full'') (js ''warn'')"
  have c1: "ll_subsystem ?c = Some (js ''cron'') \<and> ll_message ?c = Some (js ''cron job X ran'') \<and>
    ll_level ?c = Some (js ''info'')"
    by (simp add: sample_logline_def)
  have c2: "ll_type ?c = Some (js ''log'') \<and> \<not> before (Date_getTime ?w (ll_time ?c)) (Some 50)"
    by (simp add: sample_logline_def before_def offline_world_def clock_world_def)
  have a1: "or_default (ll_level ?a) (js ''debug'') = js ''warn'' \<and>
    \<not> includes_str (or_default (ll_message ?a) []) benign \<and>
    \<not> tool_branch ?a \<and> \<not> session_branch ?a \<and> \<not> cron_branch ?a \<and> \<not> memory_branch ?a"
    by (simp add: sample_logline_def or_default_def benign_def tool_branch_def session_branch_def
        cron_branch_def memory_branch_def js_def)
  have a2: "ll_type ?a = Some (js ''log'') \<and> \<not> before (Date_getTime ?w (ll_time ?a)) (Some 50)"
    by (simp add: sample_logline_def before_def offline_world_def clock_world_def)
  have b: "parse_log ?w (js ''not json'') = Inl SyntaxError"
    by (simp add: offline_world_def clock_world_def)
  note C = log_classifier_rules[where p = ?c and w = ?w and sinceTs = "Some 50"
      and line = "js ''not json''" and e = SyntaxError]
  note A = log_classifier_rules[where p = ?a and w = ?w and sinceTs = "Some 50"
      and line = "js ''not json''" and e = SyntaxError]
  have k: "map ev_kind (timeline_entry ?w (Some 50) ?c) = [js ''cron''] \<and>
           map ev_kind (activity_entry ?c) = [js ''cron''] \<and>
           map ev_kind (mcp_entry ?c) = [js ''cron'']"
    using C[THEN conjunct1] c1 c2 by blast
  have l: "map ev_kind (timeline_entry ?w (Some 50) ?a) = [js ''alert''] \<and>
           map ev_kind (activity_entry ?a) = [js ''alert''] \<and>
           map ev_kind (mcp_entry ?a) = [js ''alert'']"
    using A[THEN conjunct2, THEN conjunct1] a1 a2 by blast
  have m: "timeline_line ?w (Some 50) (js ''not json'') = [] \<and>
           activity_line ?w (js ''not json'') = [] \<and> mcp_line ?w (js ''not json'') = []"
    using C[THEN conjunct2, THEN conjunct2, THEN conjunct1] b by blast
  from k l m show ?thesis by blast
qed


subsection \<open>The timeline: aggregation and the page's merge\<close>























end
